theory Spec2Isabelle
  imports Main "HOL-Library.Word"
begin

section \<open>Cluster configuration: data model (pkg/config/types/v1alpha1/cluster\_config.go)\<close>

text \<open>
  Go pointers are modelled as \<open>option\<close> (\<open>None\<close> is the nil pointer), slices as lists
  (a nil slice and an empty slice are both \<open>[]\<close>), \<open>map[string]string\<close> as a partial
  function (a nil map and an empty map are both \<open>Map.empty\<close>), and Go's \<open>int\<close> of the
  64-bit targets as a 64-bit word (the code only compares it with zero and returns it).
  The accessors only read a slice, so in the records below a slice is the list of its
  elements. \<open>SetCertSANs\<close> writes through one, and is modelled further down over a
  store of backing arrays, where two slices may share cells.

  Two types come from packages that are not part of these sources: \<open>url.URL\<close> of the
  standard library and \<open>x509.PEMEncodedCertificateAndKey\<close>. The code below only passes
  them on, so they are the type parameters \<open>'url\<close> and \<open>'cert\<close>.
\<close>

record 'url Endpoint =
  URL :: "'url option"

record 'url ControlPlaneConfig =
  Version :: string
  Endpoint :: "'url Endpoint option"
  LocalAPIServerPort :: "64 word"

record ControllerManagerConfig =
  Image :: string
  ExtraArgs :: "string \<rightharpoonup> string"

record SchedulerConfig =
  Image :: string
  ExtraArgs :: "string \<rightharpoonup> string"

record APIServerConfig =
  Image :: string
  ExtraArgs :: "string \<rightharpoonup> string"
  CertSANs :: "string list"

record 'cert EtcdConfig =
  ContainerImage :: string
  RootCA :: "'cert option"

record ClusterNetworkConfig =
  CNI :: string
  DNSDomain :: string
  PodSubnet :: "string list"
  ServiceSubnet :: "string list"

record ('url, 'cert) ClusterConfig =
  ControlPlane :: "'url ControlPlaneConfig option"
  ClusterName :: string
  ClusterNetwork :: "ClusterNetworkConfig option"
  BootstrapToken :: string
  CertificateKey :: string
  ClusterAESCBCEncryptionSecret :: string
  ClusterCA :: "'cert option"
  APIServer :: "APIServerConfig option"
  ControllerManager :: "ControllerManagerConfig option"
  Scheduler :: "SchedulerConfig option"
  EtcdConfig :: "'cert EtcdConfig option"

text \<open>
  The three defaults of package \<open>constants\<close> (\<open>DefaultCNI\<close>, \<open>DefaultPodCIDR\<close>,
  \<open>DefaultServiceCIDR\<close>) are not part of these sources; the accessors take them as a
  parameter.
\<close>

record constants =
  DefaultCNI :: string
  DefaultPodCIDR :: string
  DefaultServiceCIDR :: string

subsection \<open>Run-time panics\<close>

text \<open>
  A method returns \<open>Inr v\<close> when the Go method returns \<open>v\<close>, and \<open>Inl p\<close> when it
  panics: reading a field through a nil pointer, or indexing a slice out of range.
\<close>

datatype panic = NilPointerDereference | IndexOutOfRange

definition deref :: "'a option \<Rightarrow> panic + 'a" where
  "deref p = (case p of None \<Rightarrow> Inl NilPointerDereference | Some v \<Rightarrow> Inr v)"

definition at_index :: "'a list \<Rightarrow> nat \<Rightarrow> panic + 'a" where
  "at_index xs i = (if i < length xs then Inr (xs ! i) else Inl IndexOutOfRange)"

subsection \<open>\<open>strings.Split\<close> with a one-byte separator\<close>

text \<open>
  \<open>strings.Split(s, sep)\<close> of the standard library, for the one-byte separator the code
  passes (\<open>"."\<close>): find the first occurrence of the separator, emit what precedes it,
  go on with what follows it; what is left when there is no further occurrence is the
  last part. The result is never empty.
\<close>

function strings_Split :: "string \<Rightarrow> char \<Rightarrow> string list" where
  "strings_Split s sep =
     (case dropWhile (\<lambda>c. c \<noteq> sep) s of
        [] \<Rightarrow> [s]
      | _ # rest \<Rightarrow> takeWhile (\<lambda>c. c \<noteq> sep) s # strings_Split rest sep)"
  by pat_completeness auto
termination
proof (relation "measure (\<lambda>(s, sep). length s)")
  show "wf (measure (\<lambda>(s, sep). length s))" by simp
next
  fix s :: string and sep x rest
  assume "dropWhile (\<lambda>c. c \<noteq> sep) s = x # rest"
  then have "length rest < length (dropWhile (\<lambda>c. c \<noteq> sep) s)" by simp
  also have "\<dots> \<le> length s" by (rule length_dropWhile_le)
  finally show "((rest, sep), (s, sep)) \<in> measure (\<lambda>(s, sep). length s)" by simp
qed

declare strings_Split.simps [simp del]

subsection \<open>The methods of \<open>*ClusterConfig\<close>\<close>

definition ClusterConfig_Version :: "('url, 'cert) ClusterConfig \<Rightarrow> panic + string" where
  "ClusterConfig_Version c =
     (case deref (ControlPlane c) of
        Inl p \<Rightarrow> Inl p
      | Inr cp \<Rightarrow> Inr (Version cp))"

definition ClusterConfig_Endpoint :: "('url, 'cert) ClusterConfig \<Rightarrow> panic + 'url option" where
  "ClusterConfig_Endpoint c =
     (case deref (ControlPlane c) of
        Inl p \<Rightarrow> Inl p
      | Inr cp \<Rightarrow>
          (case deref (Endpoint cp) of
             Inl p \<Rightarrow> Inl p
           | Inr e \<Rightarrow> Inr (URL e)))"

definition ClusterConfig_LocalAPIServerPort :: "('url, 'cert) ClusterConfig \<Rightarrow> panic + 64 word" where
  "ClusterConfig_LocalAPIServerPort c =
     (case deref (ControlPlane c) of
        Inl p \<Rightarrow> Inl p
      | Inr cp \<Rightarrow>
          if LocalAPIServerPort cp = 0 then Inr 6443
          else Inr (LocalAPIServerPort cp))"

definition ClusterConfig_CertSANs :: "('url, 'cert) ClusterConfig \<Rightarrow> panic + string list" where
  "ClusterConfig_CertSANs c =
     (case deref (APIServer c) of
        Inl p \<Rightarrow> Inl p
      | Inr a \<Rightarrow> Inr (CertSANs a))"

definition ClusterConfig_CA :: "('url, 'cert) ClusterConfig \<Rightarrow> panic + 'cert option" where
  "ClusterConfig_CA c = Inr (ClusterCA c)"

definition ClusterConfig_AESCBCEncryptionSecret :: "('url, 'cert) ClusterConfig \<Rightarrow> panic + string" where
  "ClusterConfig_AESCBCEncryptionSecret c = Inr (ClusterAESCBCEncryptionSecret c)"

definition ClusterConfig_Etcd :: "('url, 'cert) ClusterConfig \<Rightarrow> panic + 'cert EtcdConfig option" where
  "ClusterConfig_Etcd c = Inr (EtcdConfig c)"

definition ClusterConfig_ID :: "('url, 'cert) ClusterConfig \<Rightarrow> panic + string" where
  "ClusterConfig_ID c =
     (let parts = strings_Split (BootstrapToken c) (CHR ''.'')
      in if length parts \<noteq> 2 then Inr [] else at_index parts 0)"

definition ClusterConfig_Secret :: "('url, 'cert) ClusterConfig \<Rightarrow> panic + string" where
  "ClusterConfig_Secret c =
     (let parts = strings_Split (BootstrapToken c) (CHR ''.'')
      in if length parts \<noteq> 2 then Inr [] else at_index parts 1)"

text \<open>
  The three network accessors are a tagless \<open>switch\<close> whose first case (\<open>ClusterNetwork
  == nil\<close>) falls through into the body of the second, so the second condition is only
  evaluated when the pointer is not nil.
\<close>

definition ClusterConfig_CNI :: "constants \<Rightarrow> ('url, 'cert) ClusterConfig \<Rightarrow> panic + string" where
  "ClusterConfig_CNI k c =
     (case ClusterNetwork c of
        None \<Rightarrow> Inr (DefaultCNI k)
      | Some n \<Rightarrow> if CNI n = [] then Inr (DefaultCNI k) else Inr (CNI n))"

definition ClusterConfig_PodCIDR :: "constants \<Rightarrow> ('url, 'cert) ClusterConfig \<Rightarrow> panic + string" where
  "ClusterConfig_PodCIDR k c =
     (case ClusterNetwork c of
        None \<Rightarrow> Inr (DefaultPodCIDR k)
      | Some n \<Rightarrow>
          if length (PodSubnet n) = 0 then Inr (DefaultPodCIDR k)
          else at_index (PodSubnet n) 0)"

definition ClusterConfig_ServiceCIDR :: "constants \<Rightarrow> ('url, 'cert) ClusterConfig \<Rightarrow> panic + string" where
  "ClusterConfig_ServiceCIDR k c =
     (case ClusterNetwork c of
        None \<Rightarrow> Inr (DefaultServiceCIDR k)
      | Some n \<Rightarrow>
          if length (ServiceSubnet n) = 0 then Inr (DefaultServiceCIDR k)
          else at_index (ServiceSubnet n) 0)"

subsection \<open>Slices and their backing arrays\<close>










subsection \<open>The document in memory and \<open>SetCertSANs\<close>\<close>










subsection \<open>The YAML hooks of \<open>Endpoint\<close>\<close>

text \<open>
  \<open>UnmarshalYAML\<close> decodes the node into a string with the callback it is given, parses
  the string with \<open>url.Parse\<close> and stores the result; either step may fail, and the
  failure is returned. \<open>MarshalYAML\<close> returns \<open>e.URL.String()\<close>, which reads through the
  embedded pointer. \<open>url.Parse\<close> and \<open>URL.String\<close> belong to the standard library and
  are parameters here; the outcome of the callback is an argument.
\<close>

definition Endpoint_UnmarshalYAML ::
  "(string \<Rightarrow> 'err + 'url) \<Rightarrow> 'err + string \<Rightarrow> 'err + 'url Endpoint" where
  "Endpoint_UnmarshalYAML url_Parse unmarshalled =
     (case unmarshalled of
        Inl err \<Rightarrow> Inl err
      | Inr endpoint \<Rightarrow>
          (case url_Parse endpoint of
             Inl err \<Rightarrow> Inl err
           | Inr url \<Rightarrow> Inr \<lparr>URL = Some url\<rparr>))"

definition Endpoint_MarshalYAML :: "('url \<Rightarrow> string) \<Rightarrow> 'url Endpoint \<Rightarrow> panic + string" where
  "Endpoint_MarshalYAML url_String e =
     (case deref (URL e) of
        Inl p \<Rightarrow> Inl p
      | Inr url \<Rightarrow> Inr (url_String url))"

subsection \<open>Example documents\<close>

text \<open>
  The document with every pointer nil and every scalar zero (\<open>&ClusterConfig{}\<close>), and a
  populated one. The URL and the certificate are strings in the examples.
\<close>

definition zero_cluster :: "(string, string) ClusterConfig" where
  "zero_cluster =
     \<lparr>ControlPlane = None, ClusterName = [], ClusterNetwork = None, BootstrapToken = [],
      CertificateKey = [], ClusterAESCBCEncryptionSecret = [], ClusterCA = None,
      APIServer = None, ControllerManager = None, Scheduler = None, EtcdConfig = None\<rparr>"

definition example_constants :: constants where
  "example_constants =
     \<lparr>DefaultCNI = ''default-cni'', DefaultPodCIDR = ''default-pod-cidr'',
      DefaultServiceCIDR = ''default-service-cidr''\<rparr>"

definition example_cluster :: "(string, string) ClusterConfig" where
  "example_cluster =
     \<lparr>ControlPlane = Some \<lparr>Version = ''1.18.0'',
                            Endpoint = Some \<lparr>URL = Some ''https://localhost:6443/''\<rparr>,
                            LocalAPIServerPort = 0\<rparr>,
      ClusterName = ''example'',
      ClusterNetwork = Some \<lparr>CNI = ''custom'', DNSDomain = ''cluster.local'',
                              PodSubnet = [''10.0.0.0/16'', ''fd00::/48''],
                              ServiceSubnet = [''10.1.0.0/16'']\<rparr>,
      BootstrapToken = ''abc123.def456'',
      CertificateKey = ''key'',
      ClusterAESCBCEncryptionSecret = ''secret'',
      ClusterCA = Some ''ca'',
      APIServer = Some \<lparr>APIServerConfig.Image = ''apiserver'', ExtraArgs = Map.empty,
                         CertSANs = [''10.0.0.1'']\<rparr>,
      ControllerManager = None, Scheduler = None,
      EtcdConfig = Some \<lparr>ContainerImage = ''etcd'', RootCA = Some ''etcd-ca''\<rparr>\<rparr>"








section \<open>Validation (pkg/machinery/config/types/v1alpha1)\<close>

text \<open>
  \<open>Config.Validate\<close> and the types of its package are not part of these sources: only
  its test (\<open>v1alpha1\_validation\_test.go\<close>) is. The field names below are the ones the
  test's composite literals use; the behaviour is modelled from the specification.
\<close>

subsection \<open>The document, the runtime mode and the options\<close>

record InstallConfig =
  InstallDisk :: string

record MachineConfig =
  MachineType :: string
  MachineInstall :: "InstallConfig option"

record ExternalCloudProviderConfig =
  ExternalEnabled :: bool
  ExternalManifests :: "string list"

text \<open>
  Modelled from the spec: the cluster part of the validated document, whose declaration
  is missing. It is the \<open>ClusterConfig\<close> aggregate of the data model together with the
  external cloud provider settings.
\<close>

record ('url, 'cert) MachineryClusterConfig = "('url, 'cert) ClusterConfig" +
  ExternalCloudProviderConfig :: "ExternalCloudProviderConfig option"

text \<open>
  Modelled from the spec: the top-level document, whose declaration is missing: a version
  tag, the machine settings and the cluster settings.
\<close>

record ('url, 'cert) Config =
  ConfigVersion :: string
  MachineConfig :: "MachineConfig option"
  ClusterConfig :: "('url, 'cert) MachineryClusterConfig option"

text \<open>
  Modelled from the spec: the runtime mode, an interface of the missing package
  \<open>config\<close>. The validator observes two things of it: \<open>RequiresInstall()\<close> and
  \<open>String()\<close>.
\<close>

record RuntimeMode =
  RequiresInstall :: bool
  ModeString :: string

text \<open>
  The test's implementation of the interface: \<open>runtimeMode{requiresInstall}\<close>, whose
  \<open>String()\<close> is \<open>fmt.Sprintf("runtimeMode(%v)", m.requiresInstall)\<close>.
\<close>

definition runtimeMode :: "bool \<Rightarrow> RuntimeMode" where
  "runtimeMode requiresInstall =
     \<lparr>RequiresInstall = requiresInstall,
      ModeString = ''runtimeMode('' @ (if requiresInstall then ''true'' else ''false'') @ '')''\<rparr>"

text \<open>
  Modelled from the spec: the validation options \<open>{local, strict}\<close> of the missing
  package \<open>config\<close>.
\<close>

record ValidationOptions =
  Local :: bool
  Strict :: bool

subsection \<open>Violations and the aggregated error\<close>

abbreviation newline :: char where "newline \<equiv> CHR 0x0A"
abbreviation tab :: char where "tab \<equiv> CHR 0x09"
abbreviation dquote :: char where "dquote \<equiv> CHR 0x22"

text \<open>
  Modelled from the spec: a rule violation is a severity and a message; the two
  severities are warning and error.
\<close>

datatype severity = Warning | Error

type_synonym violation = "severity \<times> string"

definition warnings_of :: "violation list \<Rightarrow> string list" where
  "warnings_of vs = map snd (filter (\<lambda>v. fst v = Warning) vs)"

definition errors_of :: "violation list \<Rightarrow> string list" where
  "errors_of vs = map snd (filter (\<lambda>v. fst v = Error) vs)"

text \<open>
  Modelled from the spec: the aggregated error is the sequence of its messages, absent
  when there is none.
\<close>

type_synonym AggregatedError = "string list"

definition aggregate :: "string list \<Rightarrow> AggregatedError option" where
  "aggregate msgs = (if msgs = [] then None else Some msgs)"

definition messages :: "AggregatedError option \<Rightarrow> string list" where
  "messages e = (case e of None \<Rightarrow> [] | Some msgs \<Rightarrow> msgs)"

fun decimal :: "nat \<Rightarrow> string" where
  "decimal n =
     (if n < 10 then [''0123456789'' ! n]
      else decimal (n div 10) @ [''0123456789'' ! (n mod 10)])"

declare decimal.simps [simp del]

text \<open>
  Modelled from the spec: the rendered form of the aggregated error (the formatting
  function of the error-aggregation library is missing): the header \<open>N error occurred:\<close>
  or \<open>N errors occurred:\<close>, one line \<open>\t* message\<close> per message, and a trailing blank line.
\<close>

definition render :: "AggregatedError \<Rightarrow> string" where
  "render msgs =
     decimal (length msgs) @
     (if length msgs = 1 then '' error occurred:'' else '' errors occurred:'') @ [newline] @
     concat (map (\<lambda>m. [tab] @ ''* '' @ m @ [newline]) msgs) @ [newline]"

definition error_string :: "AggregatedError option \<Rightarrow> string option" where
  "error_string e = map_option render e"

subsection \<open>What the rules take from outside\<close>

text \<open>
  Modelled from the spec: two things the specification names and does not define. The
  test of a manifest URL ("an absolute URL with a non-blank hostname") belongs to the URL
  parser, and the additional structural rules (rule 5: "endpoint presence, cluster name
  non-empty, etc.") are not detailed. Both are parameters of the validator: the first a
  predicate on strings, the second a function from the document, the mode and the
  \<open>local\<close> option to the violations those rules find. Strict mode is "a pure promotion
  policy, not a different rule set", so the rules do not see the \<open>strict\<close> option.
\<close>

record ('url, 'cert) collaborators =
  AbsoluteURLWithHostname :: "string \<Rightarrow> bool"
  OtherRules :: "('url, 'cert) Config \<Rightarrow> RuntimeMode \<Rightarrow> bool \<Rightarrow> violation list"

subsection \<open>The rules\<close>

text \<open>
  Modelled from the spec: rule 2 of the missing \<open>Validate\<close>. An empty machine type is
  the warning "machine type is empty".
\<close>

definition rule_machine_type :: "MachineConfig \<Rightarrow> violation list" where
  "rule_machine_type m =
     (if MachineType m = [] then [(Warning, ''machine type is empty'')] else [])"

text \<open>
  Modelled from the spec: the message of rule 3 of the missing \<open>Validate\<close>, with the
  mode's string between double quotes.
\<close>

definition install_required_message :: "RuntimeMode \<Rightarrow> string" where
  "install_required_message mode =
     ''install instructions are required in '' @ [dquote] @ ModeString mode @ [dquote] @ '' mode''"

text \<open>
  Modelled from the spec: rule 3 of the missing \<open>Validate\<close>. If the mode requires an
  install and the install section is nil or its disk is empty, that is an error.
\<close>

definition rule_install :: "MachineConfig \<Rightarrow> RuntimeMode \<Rightarrow> violation list" where
  "rule_install m mode =
     (if RequiresInstall mode \<and>
         (case MachineInstall m of None \<Rightarrow> True | Some i \<Rightarrow> InstallDisk i = [])
      then [(Error, install_required_message mode)]
      else [])"

text \<open>
  Modelled from the spec: the two readings of the external cloud provider settings that
  rule 4 uses. When the struct (or the whole cluster section) is absent, the provider
  is not enabled and there are no manifests.
\<close>

definition external_cloud_provider :: "('url, 'cert) Config \<Rightarrow> ExternalCloudProviderConfig option" where
  "external_cloud_provider doc =
     (case ClusterConfig doc of None \<Rightarrow> None | Some cc \<Rightarrow> ExternalCloudProviderConfig cc)"

definition external_enabled :: "('url, 'cert) Config \<Rightarrow> bool" where
  "external_enabled doc =
     (case external_cloud_provider doc of None \<Rightarrow> False | Some e \<Rightarrow> ExternalEnabled e)"

definition external_manifests :: "('url, 'cert) Config \<Rightarrow> string list" where
  "external_manifests doc =
     (case external_cloud_provider doc of None \<Rightarrow> [] | Some e \<Rightarrow> ExternalManifests e)"

text \<open>
  Modelled from the spec: the message of rule 4 of the missing \<open>Validate\<close> for a manifest
  URL that fails the test, with the URL between double quotes.
\<close>

definition invalid_manifest_message :: "string \<Rightarrow> string" where
  "invalid_manifest_message url =
     ''invalid external cloud provider manifest url '' @ [dquote] @ url @ [dquote] @
     '': hostname must not be blank''"

text \<open>
  Modelled from the spec: rule 4 of the missing \<open>Validate\<close>. Manifests with the
  provider disabled are an error; with the provider enabled, the first manifest that is
  not an absolute URL with a non-blank hostname is an error, and the rule stops there.
\<close>

definition rule_external_cloud_provider ::
  "('url, 'cert) collaborators \<Rightarrow> ('url, 'cert) Config \<Rightarrow> violation list" where
  "rule_external_cloud_provider ext doc =
     (if \<not> external_enabled doc \<and> external_manifests doc \<noteq> []
      then [(Error, ''external cloud provider is disabled, but manifests are provided'')]
      else if external_enabled doc
      then (case find (\<lambda>url. \<not> AbsoluteURLWithHostname ext url) (external_manifests doc) of
              None \<Rightarrow> []
            | Some url \<Rightarrow> [(Error, invalid_manifest_message url)])
      else [])"

text \<open>
  Modelled from the spec: the rules of the missing \<open>Validate\<close> in their order. A nil
  \<open>MachineConfig\<close> is the single error "machine instructions are required" and no other
  rule is evaluated; otherwise rules 2 to 5 contribute in this order.
\<close>

definition violations ::
  "('url, 'cert) collaborators \<Rightarrow> ('url, 'cert) Config \<Rightarrow> RuntimeMode \<Rightarrow> bool \<Rightarrow> violation list" where
  "violations ext doc mode local =
     (case MachineConfig doc of
        None \<Rightarrow> [(Error, ''machine instructions are required'')]
      | Some m \<Rightarrow>
          rule_machine_type m @ rule_install m mode @ rule_external_cloud_provider ext doc @
          OtherRules ext doc mode local)"

text \<open>
  Modelled from the spec: the promotion of a warning in strict mode.
\<close>

definition promote :: "string \<Rightarrow> string" where
  "promote w = ''warning: '' @ w"

text \<open>
  Modelled from the spec: the missing \<open>Validate\<close>. It returns the warnings and the
  aggregated error. In strict mode the warnings are promoted into the aggregated error
  (here: after the errors) and none is returned.
\<close>

definition validate ::
  "('url, 'cert) collaborators \<Rightarrow> ('url, 'cert) Config \<Rightarrow> RuntimeMode \<Rightarrow> ValidationOptions \<Rightarrow>
     string list \<times> AggregatedError option" where
  "validate ext doc mode opts =
     (let vs = violations ext doc mode (Local opts)
      in if Strict opts
         then ([], aggregate (errors_of vs @ map promote (warnings_of vs)))
         else (warnings_of vs, aggregate (errors_of vs)))"

subsection \<open>The documents of the test\<close>

text \<open>
  The cluster section every document of \<open>TestValidate\<close> but the first has: the endpoint
  \<open>https://localhost:6443/\<close> and, for the last five, external cloud provider settings.
  The URL is kept as its string.
\<close>

definition test_cluster ::
  "ExternalCloudProviderConfig option \<Rightarrow> (string, string) MachineryClusterConfig" where
  "test_cluster ecp =
     \<lparr>ControlPlane = Some \<lparr>Version = [],
                            Endpoint = Some \<lparr>URL = Some ''https://localhost:6443/''\<rparr>,
                            LocalAPIServerPort = 0\<rparr>,
      ClusterName = [], ClusterNetwork = None, BootstrapToken = [], CertificateKey = [],
      ClusterAESCBCEncryptionSecret = [], ClusterCA = None, APIServer = None,
      ControllerManager = None, Scheduler = None, EtcdConfig = None,
      ExternalCloudProviderConfig = ecp\<rparr>"

definition test_config ::
  "MachineConfig option \<Rightarrow> ExternalCloudProviderConfig option \<Rightarrow> (string, string) Config" where
  "test_config m ecp =
     \<lparr>ConfigVersion = ''v1alpha1'', MachineConfig = m, ClusterConfig = Some (test_cluster ecp)\<rparr>"

definition test_NoMachine :: "(string, string) Config" where
  "test_NoMachine = \<lparr>ConfigVersion = ''v1alpha1'', MachineConfig = None, ClusterConfig = None\<rparr>"

definition test_NoMachineType :: "(string, string) Config" where
  "test_NoMachineType = test_config (Some \<lparr>MachineType = [], MachineInstall = None\<rparr>) None"

definition test_NoMachineInstall :: "(string, string) Config" where
  "test_NoMachineInstall = test_config (Some \<lparr>MachineType = ''join'', MachineInstall = None\<rparr>) None"

definition test_MachineInstallDisk :: "(string, string) Config" where
  "test_MachineInstallDisk =
     test_config (Some \<lparr>MachineType = ''join'',
                         MachineInstall = Some \<lparr>InstallDisk = ''/dev/vda''\<rparr>\<rparr>) None"

definition test_ExternalCloudProvider ::
  "bool \<Rightarrow> string list \<Rightarrow> (string, string) Config" where
  "test_ExternalCloudProvider enabled manifests =
     test_config (Some \<lparr>MachineType = ''join'', MachineInstall = None\<rparr>)
       (Some \<lparr>ExternalEnabled = enabled, ExternalManifests = manifests\<rparr>)"

text \<open>
  An instance of the outside parts to run the test's documents with: no additional
  rules, and a manifest URL passes when it reads \<open>scheme://host...\<close> with a scheme and a
  host that are not empty.
\<close>

definition scheme_and_host :: "string \<Rightarrow> bool" where
  "scheme_and_host url =
     (let scheme = takeWhile (\<lambda>c. c \<noteq> CHR '':'') url;
          rest = dropWhile (\<lambda>c. c \<noteq> CHR '':'') url
      in scheme \<noteq> [] \<and> CHR ''/'' \<notin> set scheme \<and> take 3 rest = ''://'' \<and>
         takeWhile (\<lambda>c. c \<noteq> CHR ''/'') (drop 3 rest) \<noteq> [])"

definition test_collaborators :: "(string, string) collaborators" where
  "test_collaborators =
     \<lparr>AbsoluteURLWithHostname = scheme_and_host, OtherRules = (\<lambda>doc mode local. [])\<rparr>"

section \<open>Properties of the cluster configuration accessors\<close>

subsection \<open>\<open>strings.Split\<close>\<close>

lemma strings_Split_no_sep:
  "sep \<notin> set s \<Longrightarrow> strings_Split s sep = [s]"
proof -
  assume "sep \<notin> set s"
  then have d: "dropWhile (\<lambda>c. c \<noteq> sep) s = []" by (auto simp: dropWhile_eq_Nil_conv)
  show ?thesis by (subst strings_Split.simps) (simp only: d list.case)
qed

lemma strings_Split_at_sep:
  assumes "sep \<notin> set a"
  shows "strings_Split (a @ sep # b) sep = a # strings_Split b sep"
proof -
  from assms have d: "dropWhile (\<lambda>c. c \<noteq> sep) (a @ sep # b) = sep # b"
    by (subst dropWhile_append2) auto
  from assms have t: "takeWhile (\<lambda>c. c \<noteq> sep) (a @ sep # b) = a"
    by (subst takeWhile_tail) auto
  show ?thesis by (subst strings_Split.simps) (simp only: d t list.case)
qed

lemma length_strings_Split:
  "length (strings_Split s sep) = Suc (count_list s sep)"
proof (induction s sep rule: strings_Split.induct)
  case (1 s sep)
  show ?case
  proof (cases "dropWhile (\<lambda>c. c \<noteq> sep) s")
    case Nil
    then have "sep \<notin> set s" by (auto simp: dropWhile_eq_Nil_conv)
    then show ?thesis by (simp add: strings_Split_no_sep)
  next
    case (Cons x rest)
    then have x: "x = sep" using hd_dropWhile[of "\<lambda>c. c \<noteq> sep" s] by auto
    have s: "s = takeWhile (\<lambda>c. c \<noteq> sep) s @ sep # rest"
      using takeWhile_dropWhile_id[of "\<lambda>c. c \<noteq> sep" s] Cons x by simp
    have n: "sep \<notin> set (takeWhile (\<lambda>c. c \<noteq> sep) s)"
      by (auto dest: set_takeWhileD)
    have "count_list s sep = count_list (takeWhile (\<lambda>c. c \<noteq> sep) s @ sep # rest) sep"
      using s by simp
    also have "\<dots> = Suc (count_list rest sep)" using n by (simp add: count_list_0_iff)
    finally have c: "count_list s sep = Suc (count_list rest sep)" .
    have "strings_Split s sep = takeWhile (\<lambda>c. c \<noteq> sep) s # strings_Split rest sep"
      by (subst strings_Split.simps) (simp only: Cons list.case)
    then show ?thesis using "1.IH"[OF Cons] c by simp
  qed
qed


lemma strings_Split_two_parts:
  assumes "sep \<notin> set a" and "sep \<notin> set b"
  shows "strings_Split (a @ sep # b) sep = [a, b]"
  using assms by (simp add: strings_Split_at_sep strings_Split_no_sep)

lemma at_index_in_range: "i < length xs \<Longrightarrow> at_index xs i = Inr (xs ! i)"
  by (simp add: at_index_def)

subsection \<open>The YAML hooks of \<open>Endpoint\<close>\<close>

text \<open>
  Marshalling what was unmarshalled from a string returns what the library's
  \<open>URL.String\<close> makes of the library's parse of that string: the two hooks add nothing
  of their own to the round trip.
\<close>

lemma Endpoint_YAML_round_trip:
  assumes "Endpoint_UnmarshalYAML url_Parse (Inr s) = Inr e"
  shows "\<exists>url. url_Parse s = Inr url \<and> Endpoint_MarshalYAML url_String e = Inr (url_String url)"
  using assms
  by (auto simp: Endpoint_UnmarshalYAML_def Endpoint_MarshalYAML_def deref_def split: sum.splits)

subsection \<open>Totality of the accessors\<close>

text \<open>
  C5, as the claim states it: every accessor returns a value on every \<open>ClusterConfig\<close>,
  also one whose \<open>ControlPlane\<close> is nil. It fails: \<open>Version\<close> reads
  \<open>c.ControlPlane.Version\<close> with no nil check, and panics on the document whose
  \<open>ControlPlane\<close> is nil.
\<close>

theorem accessors_total_counterexample:
  "ClusterConfig_Version zero_cluster = Inl NilPointerDereference"
  by (simp add: ClusterConfig_Version_def zero_cluster_def deref_def)

text \<open>
  C5, amended: \<open>Version\<close>, \<open>LocalAPIServerPort\<close> and \<open>Endpoint\<close> return a value when
  \<open>ControlPlane\<close> is not nil (\<open>Endpoint\<close>: and \<open>ControlPlane.Endpoint\<close> is not nil),
  \<open>CertSANs\<close> when \<open>APIServer\<close> is not nil; \<open>CA\<close>, \<open>AESCBCEncryptionSecret\<close>, \<open>ID\<close>,
  \<open>Secret\<close>, \<open>CNI\<close>, \<open>PodCIDR\<close> and \<open>ServiceCIDR\<close> return a value on every
  \<open>ClusterConfig\<close>, whatever \<open>ClusterNetwork\<close> and \<open>EtcdConfig\<close> are, and with
  \<open>ClusterNetwork\<close> nil the three network accessors return the defaults.
\<close>

theorem accessors_total_given_required_pointers:
  "(\<forall>cp. ControlPlane c = Some cp \<longrightarrow>
      ClusterConfig_Version c = Inr (Version cp) \<and>
      ClusterConfig_LocalAPIServerPort c =
        Inr (if LocalAPIServerPort cp = 0 then 6443 else LocalAPIServerPort cp) \<and>
      (\<forall>e. Endpoint cp = Some e \<longrightarrow> ClusterConfig_Endpoint c = Inr (URL e))) \<and>
   (\<forall>a. APIServer c = Some a \<longrightarrow> ClusterConfig_CertSANs c = Inr (CertSANs a)) \<and>
   ClusterConfig_CA c = Inr (ClusterCA c) \<and>
   ClusterConfig_AESCBCEncryptionSecret c = Inr (ClusterAESCBCEncryptionSecret c) \<and>
   (\<exists>v. ClusterConfig_ID c = Inr v) \<and>
   (\<exists>v. ClusterConfig_Secret c = Inr v) \<and>
   (\<exists>v. ClusterConfig_CNI k c = Inr v) \<and>
   (\<exists>v. ClusterConfig_PodCIDR k c = Inr v) \<and>
   (\<exists>v. ClusterConfig_ServiceCIDR k c = Inr v) \<and>
   (ClusterNetwork c = None \<longrightarrow>
      ClusterConfig_CNI k c = Inr (DefaultCNI k) \<and>
      ClusterConfig_PodCIDR k c = Inr (DefaultPodCIDR k) \<and>
      ClusterConfig_ServiceCIDR k c = Inr (DefaultServiceCIDR k))"
proof -
  have cp: "ClusterConfig_Version c = Inr (Version cp) \<and>
      ClusterConfig_LocalAPIServerPort c =
        Inr (if LocalAPIServerPort cp = 0 then 6443 else LocalAPIServerPort cp) \<and>
      (\<forall>e. Endpoint cp = Some e \<longrightarrow> ClusterConfig_Endpoint c = Inr (URL e))"
    if "ControlPlane c = Some cp" for cp
    using that
    by (simp add: ClusterConfig_Version_def ClusterConfig_LocalAPIServerPort_def
        ClusterConfig_Endpoint_def deref_def)
  have sans: "ClusterConfig_CertSANs c = Inr (CertSANs a)" if "APIServer c = Some a" for a
    using that by (simp add: ClusterConfig_CertSANs_def deref_def)
  have ca: "ClusterConfig_CA c = Inr (ClusterCA c)"
    by (simp add: ClusterConfig_CA_def)
  have aes: "ClusterConfig_AESCBCEncryptionSecret c = Inr (ClusterAESCBCEncryptionSecret c)"
    by (simp add: ClusterConfig_AESCBCEncryptionSecret_def)
  have id: "\<exists>v. ClusterConfig_ID c = Inr v"
    by (simp add: ClusterConfig_ID_def at_index_def Let_def)
  have secret: "\<exists>v. ClusterConfig_Secret c = Inr v"
    by (simp add: ClusterConfig_Secret_def at_index_def Let_def)
  have cni: "\<exists>v. ClusterConfig_CNI k c = Inr v"
    by (simp add: ClusterConfig_CNI_def split: option.split)
  have pod: "\<exists>v. ClusterConfig_PodCIDR k c = Inr v"
    by (simp add: ClusterConfig_PodCIDR_def at_index_def split: option.split)
  have svc: "\<exists>v. ClusterConfig_ServiceCIDR k c = Inr v"
    by (simp add: ClusterConfig_ServiceCIDR_def at_index_def split: option.split)
  have dflt: "ClusterConfig_CNI k c = Inr (DefaultCNI k) \<and>
      ClusterConfig_PodCIDR k c = Inr (DefaultPodCIDR k) \<and>
      ClusterConfig_ServiceCIDR k c = Inr (DefaultServiceCIDR k)"
    if "ClusterNetwork c = None"
    using that
    by (simp add: ClusterConfig_CNI_def ClusterConfig_PodCIDR_def ClusterConfig_ServiceCIDR_def)
  from cp sans ca aes id secret cni pod svc dflt show ?thesis by blast
qed

theorem accessors_total_given_required_pointers_witness:
  "ClusterConfig_Version example_cluster = Inr ''1.18.0'' \<and>
   ClusterConfig_LocalAPIServerPort example_cluster = Inr 6443 \<and>
   ClusterConfig_Endpoint example_cluster = Inr (Some ''https://localhost:6443/'') \<and>
   ClusterConfig_CertSANs example_cluster = Inr [''10.0.0.1''] \<and>
   ClusterConfig_CA example_cluster = Inr (Some ''ca'') \<and>
   ClusterConfig_CNI example_constants zero_cluster = Inr ''default-cni'' \<and>
   ClusterConfig_PodCIDR example_constants zero_cluster = Inr ''default-pod-cidr'' \<and>
   ClusterConfig_ServiceCIDR example_constants zero_cluster = Inr ''default-service-cidr''"
  using accessors_total_given_required_pointers [of example_cluster example_constants]
    accessors_total_given_required_pointers [of zero_cluster example_constants]
  by (simp add: example_cluster_def zero_cluster_def example_constants_def
      ClusterConfig_LocalAPIServerPort_def deref_def)

subsection \<open>The local API server port\<close>

text \<open>
  C7: with \<open>ControlPlane\<close> not nil, \<open>LocalAPIServerPort\<close> returns the field when it is
  not zero, and 6443 when it is zero.
\<close>

theorem LocalAPIServerPort_default:
  "ControlPlane c = Some cp \<Longrightarrow>
     (LocalAPIServerPort cp \<noteq> 0 \<longrightarrow>
        ClusterConfig_LocalAPIServerPort c = Inr (LocalAPIServerPort cp)) \<and>
     (LocalAPIServerPort cp = 0 \<longrightarrow> ClusterConfig_LocalAPIServerPort c = Inr 6443)"
  by (simp add: ClusterConfig_LocalAPIServerPort_def deref_def)

theorem LocalAPIServerPort_default_witness:
  "ClusterConfig_LocalAPIServerPort example_cluster = Inr 6443 \<and>
   ClusterConfig_LocalAPIServerPort
     (zero_cluster\<lparr>ControlPlane :=
        Some \<lparr>Version = [], Endpoint = None, LocalAPIServerPort = 8443\<rparr>\<rparr>) = Inr 8443"
  using LocalAPIServerPort_default [of example_cluster
      "\<lparr>Version = ''1.18.0'', Endpoint = Some \<lparr>URL = Some ''https://localhost:6443/''\<rparr>,
        LocalAPIServerPort = 0\<rparr>"]
    LocalAPIServerPort_default [of
      "zero_cluster\<lparr>ControlPlane :=
        Some \<lparr>Version = [], Endpoint = None, LocalAPIServerPort = 8443\<rparr>\<rparr>"
      "\<lparr>Version = [], Endpoint = None, LocalAPIServerPort = 8443\<rparr>"]
  by (simp add: example_cluster_def zero_cluster_def)

subsection \<open>Bootstrap token\<close>

text \<open>
  C6: \<open>ID\<close> and \<open>Secret\<close> return the first and the second part of \<open>BootstrapToken\<close>
  when splitting it on \<open>"."\<close> yields exactly two parts, and the empty string otherwise.
  Exactly two parts means exactly one dot: a token \<open>a.b\<close> with no dot in \<open>a\<close> or \<open>b\<close>
  gives \<open>a\<close> and \<open>b\<close>, and a token whose number of dots is not one gives two empty
  strings. \<open>"abc123.def456"\<close> gives \<open>"abc123"\<close> and \<open>"def456"\<close>; \<open>"malformed"\<close> and
  \<open>"a.b.c"\<close> give empty strings.
\<close>

theorem bootstrap_token_ID_Secret:
  "(length (strings_Split (BootstrapToken c) (CHR ''.'')) = 2 \<longrightarrow>
      ClusterConfig_ID c = Inr (strings_Split (BootstrapToken c) (CHR ''.'') ! 0) \<and>
      ClusterConfig_Secret c = Inr (strings_Split (BootstrapToken c) (CHR ''.'') ! 1)) \<and>
   (length (strings_Split (BootstrapToken c) (CHR ''.'')) \<noteq> 2 \<longrightarrow>
      ClusterConfig_ID c = Inr [] \<and> ClusterConfig_Secret c = Inr []) \<and>
   (\<forall>a b. BootstrapToken c = a @ ''.'' @ b \<and> CHR ''.'' \<notin> set a \<and> CHR ''.'' \<notin> set b \<longrightarrow>
      ClusterConfig_ID c = Inr a \<and> ClusterConfig_Secret c = Inr b) \<and>
   (count_list (BootstrapToken c) (CHR ''.'') \<noteq> 1 \<longrightarrow>
      ClusterConfig_ID c = Inr [] \<and> ClusterConfig_Secret c = Inr []) \<and>
   (BootstrapToken c = ''abc123.def456'' \<longrightarrow>
      ClusterConfig_ID c = Inr ''abc123'' \<and> ClusterConfig_Secret c = Inr ''def456'') \<and>
   (BootstrapToken c = ''malformed'' \<or> BootstrapToken c = ''a.b.c'' \<longrightarrow>
      ClusterConfig_ID c = Inr [] \<and> ClusterConfig_Secret c = Inr [])"
proof -
  let ?t = "BootstrapToken c"
  let ?parts = "strings_Split ?t (CHR ''.'')"
  have two: "ClusterConfig_ID c = Inr (?parts ! 0) \<and> ClusterConfig_Secret c = Inr (?parts ! 1)"
    if "length ?parts = 2"
    using that by (simp add: ClusterConfig_ID_def ClusterConfig_Secret_def at_index_in_range)
  have other: "ClusterConfig_ID c = Inr [] \<and> ClusterConfig_Secret c = Inr []"
    if "length ?parts \<noteq> 2"
    using that by (simp add: ClusterConfig_ID_def ClusterConfig_Secret_def)
  have split: "ClusterConfig_ID c = Inr a \<and> ClusterConfig_Secret c = Inr b"
    if "?t = a @ ''.'' @ b" and "CHR ''.'' \<notin> set a" and "CHR ''.'' \<notin> set b" for a b
  proof -
    from that have "?parts = [a, b]" by (simp add: strings_Split_two_parts)
    with two show ?thesis by simp
  qed
  have count: "ClusterConfig_ID c = Inr [] \<and> ClusterConfig_Secret c = Inr []"
    if "count_list ?t (CHR ''.'') \<noteq> 1"
    using that other by (simp add: length_strings_Split)
  have ex1: "ClusterConfig_ID c = Inr ''abc123'' \<and> ClusterConfig_Secret c = Inr ''def456''"
    if "?t = ''abc123.def456''"
    using split[of "''abc123''" "''def456''"] that by simp
  have ex2: "ClusterConfig_ID c = Inr [] \<and> ClusterConfig_Secret c = Inr []"
    if "?t = ''malformed'' \<or> ?t = ''a.b.c''"
    using that count by auto
  from two other split count ex1 ex2 show ?thesis by blast
qed

theorem bootstrap_token_ID_Secret_witness:
  "ClusterConfig_ID example_cluster = Inr ''abc123'' \<and>
   ClusterConfig_Secret example_cluster = Inr ''def456'' \<and>
   ClusterConfig_ID (zero_cluster\<lparr>BootstrapToken := ''malformed''\<rparr>) = Inr [] \<and>
   ClusterConfig_Secret (zero_cluster\<lparr>BootstrapToken := ''a.b.c''\<rparr>) = Inr [] \<and>
   ClusterConfig_ID (zero_cluster\<lparr>BootstrapToken := ''.secret''\<rparr>) = Inr [] \<and>
   ClusterConfig_Secret (zero_cluster\<lparr>BootstrapToken := ''.secret''\<rparr>) = Inr ''secret''"
  using bootstrap_token_ID_Secret [of example_cluster]
    bootstrap_token_ID_Secret [of "zero_cluster\<lparr>BootstrapToken := ''malformed''\<rparr>"]
    bootstrap_token_ID_Secret [of "zero_cluster\<lparr>BootstrapToken := ''a.b.c''\<rparr>"]
    bootstrap_token_ID_Secret [of "zero_cluster\<lparr>BootstrapToken := ''.secret''\<rparr>"]
  by (simp add: example_cluster_def zero_cluster_def strings_Split.simps)

subsection \<open>Network defaults\<close>

text \<open>
  C8: \<open>CNI\<close> returns \<open>ClusterNetwork.CNI\<close> when \<open>ClusterNetwork\<close> is not nil and the
  field is not empty, and the default otherwise; \<open>PodCIDR\<close> returns
  \<open>ClusterNetwork.PodSubnet[0]\<close> when \<open>ClusterNetwork\<close> is not nil and \<open>PodSubnet\<close> is
  not empty, and the default otherwise; \<open>ServiceCIDR\<close> does the same over
  \<open>ServiceSubnet\<close>; replacing the elements of a subnet sequence after the first changes
  neither result.
\<close>

theorem network_accessors_defaults:
  "(\<forall>n. ClusterNetwork c = Some n \<and> CNI n \<noteq> [] \<longrightarrow> ClusterConfig_CNI k c = Inr (CNI n)) \<and>
   (ClusterNetwork c = None \<or> (\<exists>n. ClusterNetwork c = Some n \<and> CNI n = []) \<longrightarrow>
      ClusterConfig_CNI k c = Inr (DefaultCNI k)) \<and>
   (\<forall>n. ClusterNetwork c = Some n \<and> PodSubnet n \<noteq> [] \<longrightarrow>
      ClusterConfig_PodCIDR k c = Inr (PodSubnet n ! 0)) \<and>
   (ClusterNetwork c = None \<or> (\<exists>n. ClusterNetwork c = Some n \<and> PodSubnet n = []) \<longrightarrow>
      ClusterConfig_PodCIDR k c = Inr (DefaultPodCIDR k)) \<and>
   (\<forall>n. ClusterNetwork c = Some n \<and> ServiceSubnet n \<noteq> [] \<longrightarrow>
      ClusterConfig_ServiceCIDR k c = Inr (ServiceSubnet n ! 0)) \<and>
   (ClusterNetwork c = None \<or> (\<exists>n. ClusterNetwork c = Some n \<and> ServiceSubnet n = []) \<longrightarrow>
      ClusterConfig_ServiceCIDR k c = Inr (DefaultServiceCIDR k)) \<and>
   (\<forall>n x xs ys. ClusterNetwork c = Some n \<and> PodSubnet n = x # xs \<longrightarrow>
      ClusterConfig_PodCIDR k (c\<lparr>ClusterNetwork := Some (n\<lparr>PodSubnet := x # ys\<rparr>)\<rparr>) =
        ClusterConfig_PodCIDR k c) \<and>
   (\<forall>n x xs ys. ClusterNetwork c = Some n \<and> ServiceSubnet n = x # xs \<longrightarrow>
      ClusterConfig_ServiceCIDR k (c\<lparr>ClusterNetwork := Some (n\<lparr>ServiceSubnet := x # ys\<rparr>)\<rparr>) =
        ClusterConfig_ServiceCIDR k c)"
proof -
  have cni: "ClusterConfig_CNI k c = Inr (CNI n)" if "ClusterNetwork c = Some n" "CNI n \<noteq> []" for n
    using that by (simp add: ClusterConfig_CNI_def)
  have cni_d: "ClusterConfig_CNI k c = Inr (DefaultCNI k)"
    if "ClusterNetwork c = None \<or> (\<exists>n. ClusterNetwork c = Some n \<and> CNI n = [])"
    using that by (auto simp: ClusterConfig_CNI_def)
  have pod: "ClusterConfig_PodCIDR k c = Inr (PodSubnet n ! 0)"
    if "ClusterNetwork c = Some n" "PodSubnet n \<noteq> []" for n
    using that by (simp add: ClusterConfig_PodCIDR_def at_index_def)
  have pod_d: "ClusterConfig_PodCIDR k c = Inr (DefaultPodCIDR k)"
    if "ClusterNetwork c = None \<or> (\<exists>n. ClusterNetwork c = Some n \<and> PodSubnet n = [])"
    using that by (auto simp: ClusterConfig_PodCIDR_def)
  have svc: "ClusterConfig_ServiceCIDR k c = Inr (ServiceSubnet n ! 0)"
    if "ClusterNetwork c = Some n" "ServiceSubnet n \<noteq> []" for n
    using that by (simp add: ClusterConfig_ServiceCIDR_def at_index_def)
  have svc_d: "ClusterConfig_ServiceCIDR k c = Inr (DefaultServiceCIDR k)"
    if "ClusterNetwork c = None \<or> (\<exists>n. ClusterNetwork c = Some n \<and> ServiceSubnet n = [])"
    using that by (auto simp: ClusterConfig_ServiceCIDR_def)
  have pod_t: "ClusterConfig_PodCIDR k (c\<lparr>ClusterNetwork := Some (n\<lparr>PodSubnet := x # ys\<rparr>)\<rparr>) =
        ClusterConfig_PodCIDR k c"
    if "ClusterNetwork c = Some n" "PodSubnet n = x # xs" for n x xs ys
    using that by (simp add: ClusterConfig_PodCIDR_def at_index_def)
  have svc_t: "ClusterConfig_ServiceCIDR k (c\<lparr>ClusterNetwork := Some (n\<lparr>ServiceSubnet := x # ys\<rparr>)\<rparr>) =
        ClusterConfig_ServiceCIDR k c"
    if "ClusterNetwork c = Some n" "ServiceSubnet n = x # xs" for n x xs ys
    using that by (simp add: ClusterConfig_ServiceCIDR_def at_index_def)
  show ?thesis
    apply (intro conjI allI impI)
    using cni cni_d pod pod_d svc svc_d pod_t svc_t by blast+
qed

theorem network_accessors_defaults_witness:
  "ClusterConfig_CNI example_constants example_cluster = Inr ''custom'' \<and>
   ClusterConfig_PodCIDR example_constants example_cluster = Inr ''10.0.0.0/16'' \<and>
   ClusterConfig_ServiceCIDR example_constants example_cluster = Inr ''10.1.0.0/16'' \<and>
   ClusterConfig_CNI example_constants zero_cluster = Inr ''default-cni'' \<and>
   ClusterConfig_PodCIDR example_constants zero_cluster = Inr ''default-pod-cidr'' \<and>
   ClusterConfig_ServiceCIDR example_constants zero_cluster = Inr ''default-service-cidr'' \<and>
   ClusterConfig_PodCIDR example_constants
     (example_cluster\<lparr>ClusterNetwork :=
        Some \<lparr>CNI = ''custom'', DNSDomain = ''cluster.local'',
              PodSubnet = [''10.0.0.0/16'', ''192.168.0.0/16'', ''fd01::/48''],
              ServiceSubnet = [''10.1.0.0/16'']\<rparr>\<rparr>) = Inr ''10.0.0.0/16''"
  using network_accessors_defaults [of example_cluster example_constants]
    network_accessors_defaults [of zero_cluster example_constants]
  by (simp add: example_cluster_def zero_cluster_def example_constants_def
      ClusterConfig_PodCIDR_def at_index_def)

subsection \<open>Reading slices after \<open>append\<close>\<close>


















subsection \<open>Appending certificate SANs\<close>




section \<open>Properties of the validator\<close>

subsection \<open>Unfolding the validator\<close>

lemma render_single:
  "render [m] = ''1 error occurred:'' @ [newline, tab] @ ''* '' @ m @ [newline, newline]"
  by (simp add: render_def decimal.simps)

lemma messages_aggregate: "messages (aggregate msgs) = msgs"
  by (simp add: messages_def aggregate_def)

lemma validate_strict:
  "Strict opts \<Longrightarrow>
     validate ext doc mode opts =
       ([], aggregate (errors_of (violations ext doc mode (Local opts)) @
                       map promote (warnings_of (violations ext doc mode (Local opts)))))"
  by (simp add: validate_def Let_def)

lemma validate_not_strict:
  "\<not> Strict opts \<Longrightarrow>
     validate ext doc mode opts =
       (warnings_of (violations ext doc mode (Local opts)),
        aggregate (errors_of (violations ext doc mode (Local opts))))"
  by (simp add: validate_def Let_def)

lemma violations_nil_machine:
  "MachineConfig doc = None \<Longrightarrow>
     violations ext doc mode local = [(Error, ''machine instructions are required'')]"
  by (simp add: violations_def)

lemma violations_machine:
  "MachineConfig doc = Some m \<Longrightarrow>
     violations ext doc mode local =
       rule_machine_type m @ rule_install m mode @ rule_external_cloud_provider ext doc @
       OtherRules ext doc mode local"
  by (simp add: violations_def)

lemma warnings_of_append [simp]: "warnings_of (xs @ ys) = warnings_of xs @ warnings_of ys"
  by (simp add: warnings_of_def)

lemma errors_of_append [simp]: "errors_of (xs @ ys) = errors_of xs @ errors_of ys"
  by (simp add: errors_of_def)

lemma warnings_of_simps [simp]:
  "warnings_of [] = []"
  "warnings_of ((Warning, m) # vs) = m # warnings_of vs"
  "warnings_of ((Error, m) # vs) = warnings_of vs"
  by (simp_all add: warnings_of_def)

lemma errors_of_simps [simp]:
  "errors_of [] = []"
  "errors_of ((Error, m) # vs) = m # errors_of vs"
  "errors_of ((Warning, m) # vs) = errors_of vs"
  by (simp_all add: errors_of_def)

subsection \<open>A document without machine settings\<close>

text \<open>
  C2: when \<open>MachineConfig\<close> is nil, \<open>validate\<close> returns no warnings and the aggregated
  error of the single message "machine instructions are required", which renders as
  \<open>1 error occurred:\n\t* machine instructions are required\n\n\<close>, for every mode, every
  options value (strict or not) and whatever the other rules would find.
\<close>

theorem nil_machine_config:
  "MachineConfig doc = None \<Longrightarrow>
     validate ext doc mode opts = ([], Some [''machine instructions are required'']) \<and>
     error_string (snd (validate ext doc mode opts)) =
       Some (''1 error occurred:'' @ [newline, tab] @
             ''* machine instructions are required'' @ [newline, newline])"
  by (cases "Strict opts")
    (simp_all add: validate_strict validate_not_strict violations_nil_machine aggregate_def
      error_string_def render_single)

theorem nil_machine_config_witness:
  "MachineConfig test_NoMachine = None \<and>
   validate test_collaborators test_NoMachine (runtimeMode False) \<lparr>Local = True, Strict = False\<rparr> =
     ([], Some [''machine instructions are required'']) \<and>
   validate test_collaborators test_NoMachine (runtimeMode True) \<lparr>Local = False, Strict = True\<rparr> =
     ([], Some [''machine instructions are required'']) \<and>
   error_string (snd (validate test_collaborators test_NoMachine (runtimeMode False)
       \<lparr>Local = True, Strict = False\<rparr>)) =
     Some (''1 error occurred:'' @ [newline, tab] @
           ''* machine instructions are required'' @ [newline, newline])"
  using nil_machine_config [of test_NoMachine test_collaborators "runtimeMode False"
      "\<lparr>Local = True, Strict = False\<rparr>"]
    nil_machine_config [of test_NoMachine test_collaborators "runtimeMode True"
      "\<lparr>Local = False, Strict = True\<rparr>"]
  by (simp add: test_NoMachine_def error_string_def render_single)

subsection \<open>Strict mode\<close>

text \<open>
  C1: for every document, mode and options, \<open>validate\<close> with \<open>strict\<close> set returns no
  warnings, and every warning that \<open>validate\<close> without \<open>strict\<close> returns is in the
  aggregated error of the strict call, prefixed with \<open>warning: \<close>; the messages of the
  strict call are those of the non-strict call and these promoted warnings. Without
  \<open>strict\<close> the warnings are returned as warnings and the aggregated error holds the
  errors of the rules only. An otherwise valid document with an empty machine type
  gives one warning and no error without \<open>strict\<close>, and no warnings and the error
  \<open>1 error occurred:\n\t* warning: machine type is empty\n\n\<close> with it.
\<close>

theorem strict_mode_promotes_warnings:
  "fst (validate ext doc mode (opts\<lparr>Strict := True\<rparr>)) = [] \<and>
   (\<forall>w \<in> set (fst (validate ext doc mode (opts\<lparr>Strict := False\<rparr>))).
      ''warning: '' @ w \<in> set (messages (snd (validate ext doc mode (opts\<lparr>Strict := True\<rparr>))))) \<and>
   set (messages (snd (validate ext doc mode (opts\<lparr>Strict := True\<rparr>)))) =
     set (messages (snd (validate ext doc mode (opts\<lparr>Strict := False\<rparr>)))) \<union>
     (\<lambda>w. ''warning: '' @ w) ` set (fst (validate ext doc mode (opts\<lparr>Strict := False\<rparr>))) \<and>
   fst (validate ext doc mode (opts\<lparr>Strict := False\<rparr>)) =
     warnings_of (violations ext doc mode (Local opts)) \<and>
   messages (snd (validate ext doc mode (opts\<lparr>Strict := False\<rparr>))) =
     errors_of (violations ext doc mode (Local opts)) \<and>
   (\<forall>m. MachineConfig doc = Some m \<and> MachineType m = [] \<and> rule_install m mode = [] \<and>
        rule_external_cloud_provider ext doc = [] \<and> OtherRules ext doc mode (Local opts) = [] \<longrightarrow>
      validate ext doc mode (opts\<lparr>Strict := False\<rparr>) = ([''machine type is empty''], None) \<and>
      validate ext doc mode (opts\<lparr>Strict := True\<rparr>) =
        ([], Some [''warning: machine type is empty'']) \<and>
      error_string (snd (validate ext doc mode (opts\<lparr>Strict := True\<rparr>))) =
        Some (''1 error occurred:'' @ [newline, tab] @
              ''* warning: machine type is empty'' @ [newline, newline]))"
proof -
  let ?vs = "violations ext doc mode (Local opts)"
  have s: "validate ext doc mode (opts\<lparr>Strict := True\<rparr>) =
      ([], aggregate (errors_of ?vs @ map promote (warnings_of ?vs)))"
    by (simp add: validate_strict)
  have n: "validate ext doc mode (opts\<lparr>Strict := False\<rparr>) =
      (warnings_of ?vs, aggregate (errors_of ?vs))"
    by (simp add: validate_not_strict)
  have p: "promote = (\<lambda>w. ''warning: '' @ w)"
    by (rule ext) (simp add: promote_def)
  have general: "fst (validate ext doc mode (opts\<lparr>Strict := True\<rparr>)) = [] \<and>
      (\<forall>w \<in> set (fst (validate ext doc mode (opts\<lparr>Strict := False\<rparr>))).
         ''warning: '' @ w \<in> set (messages (snd (validate ext doc mode (opts\<lparr>Strict := True\<rparr>))))) \<and>
      set (messages (snd (validate ext doc mode (opts\<lparr>Strict := True\<rparr>)))) =
        set (messages (snd (validate ext doc mode (opts\<lparr>Strict := False\<rparr>)))) \<union>
        (\<lambda>w. ''warning: '' @ w) ` set (fst (validate ext doc mode (opts\<lparr>Strict := False\<rparr>))) \<and>
      fst (validate ext doc mode (opts\<lparr>Strict := False\<rparr>)) = warnings_of ?vs \<and>
      messages (snd (validate ext doc mode (opts\<lparr>Strict := False\<rparr>))) = errors_of ?vs"
    unfolding s n by (auto simp: messages_aggregate p)
  have example: "validate ext doc mode (opts\<lparr>Strict := False\<rparr>) = ([''machine type is empty''], None) \<and>
      validate ext doc mode (opts\<lparr>Strict := True\<rparr>) =
        ([], Some [''warning: machine type is empty'']) \<and>
      error_string (snd (validate ext doc mode (opts\<lparr>Strict := True\<rparr>))) =
        Some (''1 error occurred:'' @ [newline, tab] @
              ''* warning: machine type is empty'' @ [newline, newline])"
    if "MachineConfig doc = Some m" "MachineType m = []" "rule_install m mode = []"
      "rule_external_cloud_provider ext doc = []" "OtherRules ext doc mode (Local opts) = []"
    for m
  proof -
    have "?vs = [(Warning, ''machine type is empty'')]"
      using that by (simp add: violations_machine rule_machine_type_def)
    then show ?thesis
      unfolding s n
      by (simp add: aggregate_def promote_def error_string_def render_single)
  qed
  from general example show ?thesis by blast
qed

theorem strict_mode_promotes_warnings_witness:
  "validate test_collaborators test_NoMachineType (runtimeMode False)
      \<lparr>Local = True, Strict = False\<rparr> = ([''machine type is empty''], None) \<and>
   validate test_collaborators test_NoMachineType (runtimeMode False)
      \<lparr>Local = True, Strict = True\<rparr> = ([], Some [''warning: machine type is empty'']) \<and>
   error_string (snd (validate test_collaborators test_NoMachineType (runtimeMode False)
      \<lparr>Local = True, Strict = True\<rparr>)) =
     Some (''1 error occurred:'' @ [newline, tab] @
           ''* warning: machine type is empty'' @ [newline, newline])"
  using strict_mode_promotes_warnings [of test_collaborators test_NoMachineType
      "runtimeMode False" "\<lparr>Local = True, Strict = False\<rparr>"]
  by (simp add: validate_def violations_def test_NoMachineType_def test_config_def
      test_collaborators_def rule_machine_type_def rule_install_def runtimeMode_def
      rule_external_cloud_provider_def external_enabled_def external_manifests_def
      external_cloud_provider_def test_cluster_def aggregate_def promote_def
      error_string_def render_single)

subsection \<open>The install requirement\<close>

lemma promote_not_install_required: "promote w \<noteq> install_required_message mode"
  by (simp add: promote_def install_required_message_def)

lemma install_required_not_in_promoted:
  "install_required_message mode \<notin> set (map promote ws)"
  using promote_not_install_required [of _ mode] by (metis (no_types) imageE list.set_map)

lemma install_required_not_external:
  "install_required_message mode \<notin> set (errors_of (rule_external_cloud_provider ext doc))"
  by (simp add: rule_external_cloud_provider_def install_required_message_def
      invalid_manifest_message_def split: option.split)

lemma install_required_not_machine_type:
  "install_required_message mode \<notin> set (errors_of (rule_machine_type m))"
  by (simp add: rule_machine_type_def)

lemma errors_of_rule_install:
  "set (errors_of (rule_install m mode)) =
     (if RequiresInstall mode \<and>
         (MachineInstall m = None \<or> (\<exists>i. MachineInstall m = Some i \<and> InstallDisk i = []))
      then {install_required_message mode} else {})"
  by (auto simp: rule_install_def split: option.splits)

lemma messages_validate:
  "set (messages (snd (validate ext doc mode opts))) =
     set (errors_of (violations ext doc mode (Local opts))) \<union>
     (if Strict opts then set (map promote (warnings_of (violations ext doc mode (Local opts))))
      else {})"
  by (cases "Strict opts") (simp_all add: validate_strict validate_not_strict messages_aggregate)

text \<open>
  C3: for a document with machine settings, when the mode requires an install the error
  \<open>install instructions are required in "<mode>" mode\<close>, with the mode's string
  interpolated, is among the messages of \<open>validate\<close> exactly when the install section
  is nil or its disk is empty (so not when the disk is set); when the mode does not
  require an install it is never among them. The additional rules, which the
  specification does not detail, are assumed not to report this same message.
\<close>

theorem install_requirement:
  assumes "MachineConfig doc = Some m"
    and "install_required_message mode \<notin> set (errors_of (OtherRules ext doc mode (Local opts)))"
  shows "(RequiresInstall mode \<longrightarrow>
            (''install instructions are required in '' @ [dquote] @ ModeString mode @ [dquote] @ '' mode''
               \<in> set (messages (snd (validate ext doc mode opts)))) =
            (MachineInstall m = None \<or> (\<exists>i. MachineInstall m = Some i \<and> InstallDisk i = []))) \<and>
         (\<not> RequiresInstall mode \<longrightarrow>
            ''install instructions are required in '' @ [dquote] @ ModeString mode @ [dquote] @ '' mode''
               \<notin> set (messages (snd (validate ext doc mode opts))))"
proof -
  let ?msg = "install_required_message mode"
  have "(?msg \<in> set (messages (snd (validate ext doc mode opts)))) =
      (?msg \<in> set (errors_of (rule_install m mode)))"
    using assms(2) install_required_not_in_promoted [of mode]
      install_required_not_external [of mode ext doc]
      install_required_not_machine_type [of mode m]
    by (simp add: messages_validate violations_machine [OF assms(1)])
  then have "(?msg \<in> set (messages (snd (validate ext doc mode opts)))) =
      (RequiresInstall mode \<and>
        (MachineInstall m = None \<or> (\<exists>i. MachineInstall m = Some i \<and> InstallDisk i = [])))"
    by (simp add: errors_of_rule_install)
  then show ?thesis
    unfolding install_required_message_def by simp
qed

theorem install_requirement_witness:
  "validate test_collaborators test_NoMachineInstall (runtimeMode True)
      \<lparr>Local = True, Strict = False\<rparr> =
     ([], Some [''install instructions are required in '' @ [dquote] @ ''runtimeMode(true)'' @
                [dquote] @ '' mode'']) \<and>
   error_string (snd (validate test_collaborators test_NoMachineInstall (runtimeMode True)
      \<lparr>Local = True, Strict = False\<rparr>)) =
     Some (''1 error occurred:'' @ [newline, tab] @
           ''* install instructions are required in '' @ [dquote] @ ''runtimeMode(true)'' @
           [dquote] @ '' mode'' @ [newline, newline]) \<and>
   validate test_collaborators test_NoMachineInstall (runtimeMode False)
      \<lparr>Local = True, Strict = False\<rparr> = ([], None) \<and>
   validate test_collaborators test_MachineInstallDisk (runtimeMode True)
      \<lparr>Local = True, Strict = False\<rparr> = ([], None)"
  using install_requirement [of test_NoMachineInstall
      "\<lparr>MachineType = ''join'', MachineInstall = None\<rparr>" "runtimeMode True" test_collaborators
      "\<lparr>Local = True, Strict = False\<rparr>"]
    install_requirement [of test_NoMachineInstall
      "\<lparr>MachineType = ''join'', MachineInstall = None\<rparr>" "runtimeMode False" test_collaborators
      "\<lparr>Local = True, Strict = False\<rparr>"]
    install_requirement [of test_MachineInstallDisk
      "\<lparr>MachineType = ''join'', MachineInstall = Some \<lparr>InstallDisk = ''/dev/vda''\<rparr>\<rparr>"
      "runtimeMode True" test_collaborators "\<lparr>Local = True, Strict = False\<rparr>"]
  by (simp add: validate_def violations_def test_NoMachineInstall_def test_MachineInstallDisk_def
      test_config_def test_collaborators_def rule_machine_type_def rule_install_def
      runtimeMode_def install_required_message_def
      rule_external_cloud_provider_def external_enabled_def external_manifests_def
      external_cloud_provider_def test_cluster_def aggregate_def
      error_string_def render_single)

subsection \<open>External cloud provider\<close>

lemma find_first_offending:
  "\<forall>u \<in> set pre. \<not> P u \<Longrightarrow> P x \<Longrightarrow> find P (pre @ x # post) = Some x"
  by (induction pre) simp_all

lemma find_none_offending: "\<forall>u \<in> set xs. \<not> P u \<Longrightarrow> find P xs = None"
  by (induction xs) simp_all

text \<open>
  C4: for an otherwise valid document (machine settings present, machine type not
  empty, install rule satisfied, nothing found by the additional rules): with the
  provider disabled (also when the struct is absent) and manifests present, \<open>validate\<close>
  returns exactly the error "external cloud provider is disabled, but manifests are
  provided"; with the provider enabled and a manifest that is not an absolute URL with
  a non-blank hostname, it returns exactly the error
  \<open>invalid external cloud provider manifest url "<url>": hostname must not be blank\<close>
  for the first such manifest; with the provider enabled and every manifest passing (or
  none given), it returns no warnings and no error. With the provider disabled and no
  manifests it returns nothing either.
\<close>

theorem external_cloud_provider_consistency:
  assumes "MachineConfig doc = Some m"
    and "MachineType m \<noteq> []"
    and "\<not> RequiresInstall mode \<or> (\<exists>i. MachineInstall m = Some i \<and> InstallDisk i \<noteq> [])"
    and "OtherRules ext doc mode (Local opts) = []"
  shows "(\<not> external_enabled doc \<and> external_manifests doc \<noteq> [] \<longrightarrow>
            validate ext doc mode opts =
              ([], Some [''external cloud provider is disabled, but manifests are provided''])) \<and>
         (\<not> external_enabled doc \<and> external_manifests doc = [] \<longrightarrow>
            validate ext doc mode opts = ([], None)) \<and>
         (\<forall>pre url post.
            external_enabled doc \<and> external_manifests doc = pre @ url # post \<and>
            (\<forall>u \<in> set pre. AbsoluteURLWithHostname ext u) \<and> \<not> AbsoluteURLWithHostname ext url \<longrightarrow>
            validate ext doc mode opts =
              ([], Some [''invalid external cloud provider manifest url '' @ [dquote] @ url @
                         [dquote] @ '': hostname must not be blank''])) \<and>
         (external_enabled doc \<and> (\<forall>u \<in> set (external_manifests doc). AbsoluteURLWithHostname ext u) \<longrightarrow>
            validate ext doc mode opts = ([], None))"
proof -
  have mt: "rule_machine_type m = []"
    using assms(2) by (simp add: rule_machine_type_def)
  have ins: "rule_install m mode = []"
    using assms(3) by (auto simp: rule_install_def)
  have vs: "violations ext doc mode (Local opts) = rule_external_cloud_provider ext doc"
    by (simp add: violations_machine [OF assms(1)] mt ins assms(4))
  have v: "validate ext doc mode opts =
      ([], aggregate (errors_of (rule_external_cloud_provider ext doc)))"
    if "warnings_of (rule_external_cloud_provider ext doc) = []"
    using that by (cases "Strict opts") (simp_all add: validate_strict validate_not_strict vs)
  have disabled: "validate ext doc mode opts =
      ([], Some [''external cloud provider is disabled, but manifests are provided''])"
    if "\<not> external_enabled doc" "external_manifests doc \<noteq> []"
    using that by (subst v) (simp_all add: rule_external_cloud_provider_def aggregate_def)
  have silent: "validate ext doc mode opts = ([], None)"
    if "\<not> external_enabled doc" "external_manifests doc = []"
    using that by (subst v) (simp_all add: rule_external_cloud_provider_def aggregate_def)
  have invalid: "validate ext doc mode opts =
      ([], Some [''invalid external cloud provider manifest url '' @ [dquote] @ url @
                 [dquote] @ '': hostname must not be blank''])"
    if "external_enabled doc" "external_manifests doc = pre @ url # post"
      "\<forall>u \<in> set pre. AbsoluteURLWithHostname ext u" "\<not> AbsoluteURLWithHostname ext url"
    for pre url post
  proof -
    have "find (\<lambda>u. \<not> AbsoluteURLWithHostname ext u) (external_manifests doc) = Some url"
      using that by (simp add: find_first_offending)
    with that(1) show ?thesis
      by (subst v) (simp_all add: rule_external_cloud_provider_def aggregate_def
          invalid_manifest_message_def)
  qed
  have valid: "validate ext doc mode opts = ([], None)"
    if "external_enabled doc" "\<forall>u \<in> set (external_manifests doc). AbsoluteURLWithHostname ext u"
  proof -
    have "find (\<lambda>u. \<not> AbsoluteURLWithHostname ext u) (external_manifests doc) = None"
      using that(2) by (simp add: find_none_offending)
    with that(1) show ?thesis
      by (subst v) (simp_all add: rule_external_cloud_provider_def aggregate_def)
  qed
  show ?thesis
    apply (intro conjI allI impI)
    using disabled silent invalid valid by blast+
qed

theorem external_cloud_provider_consistency_witness:
  "validate test_collaborators
      (test_ExternalCloudProvider True
         [''https://www.example.com/manifest1.yaml'', ''https://www.example.com/manifest2.yaml''])
      (runtimeMode False) \<lparr>Local = True, Strict = False\<rparr> = ([], None) \<and>
   validate test_collaborators (test_ExternalCloudProvider True [])
      (runtimeMode False) \<lparr>Local = True, Strict = False\<rparr> = ([], None) \<and>
   validate test_collaborators (test_ExternalCloudProvider False [])
      (runtimeMode False) \<lparr>Local = True, Strict = False\<rparr> = ([], None) \<and>
   validate test_collaborators
      (test_ExternalCloudProvider False
         [''https://www.example.com/manifest1.yaml'', ''https://www.example.com/manifest2.yaml''])
      (runtimeMode False) \<lparr>Local = True, Strict = False\<rparr> =
     ([], Some [''external cloud provider is disabled, but manifests are provided'']) \<and>
   validate test_collaborators (test_ExternalCloudProvider True [''/manifest.yaml''])
      (runtimeMode False) \<lparr>Local = True, Strict = False\<rparr> =
     ([], Some [''invalid external cloud provider manifest url '' @ [dquote] @ ''/manifest.yaml'' @
                [dquote] @ '': hostname must not be blank'']) \<and>
   error_string (snd (validate test_collaborators
      (test_ExternalCloudProvider True [''/manifest.yaml''])
      (runtimeMode False) \<lparr>Local = True, Strict = False\<rparr>)) =
     Some (''1 error occurred:'' @ [newline, tab] @
           ''* invalid external cloud provider manifest url '' @ [dquote] @ ''/manifest.yaml'' @
           [dquote] @ '': hostname must not be blank'' @ [newline, newline]) \<and>
   validate test_collaborators
      (test_ExternalCloudProvider True
         [''https://www.example.com/manifest1.yaml'', ''/first.yaml'', ''second.yaml''])
      (runtimeMode False) \<lparr>Local = True, Strict = True\<rparr> =
     ([], Some [''invalid external cloud provider manifest url '' @ [dquote] @ ''/first.yaml'' @
                [dquote] @ '': hostname must not be blank''])"
  using external_cloud_provider_consistency [of
      "test_ExternalCloudProvider True
         [''https://www.example.com/manifest1.yaml'', ''https://www.example.com/manifest2.yaml'']"
      "\<lparr>MachineType = ''join'', MachineInstall = None\<rparr>" "runtimeMode False" test_collaborators
      "\<lparr>Local = True, Strict = False\<rparr>"]
    external_cloud_provider_consistency [of
      "test_ExternalCloudProvider False
         [''https://www.example.com/manifest1.yaml'', ''https://www.example.com/manifest2.yaml'']"
      "\<lparr>MachineType = ''join'', MachineInstall = None\<rparr>" "runtimeMode False" test_collaborators
      "\<lparr>Local = True, Strict = False\<rparr>"]
  by (simp add: validate_def violations_def test_ExternalCloudProvider_def
      test_config_def test_collaborators_def rule_machine_type_def rule_install_def
      runtimeMode_def invalid_manifest_message_def scheme_and_host_def
      rule_external_cloud_provider_def external_enabled_def external_manifests_def
      external_cloud_provider_def test_cluster_def aggregate_def
      error_string_def render_single)

end
